theory Spec2Isabelle
  imports Complex_Main "HOL-Library.Word" "HOL-Library.Sublist"
begin

section \<open>Values\<close>

text \<open>
  The C++ \<^verbatim>\<open>int\<close> of filters.cpp is a 32-bit two's complement integer. Arithmetic on it is
  modelled with wrap-around (what the compiled code does; the language leaves signed overflow
  undefined), and every comparison reads the word as signed.
\<close>

type_synonym int32 = "32 word"

text \<open>\<^verbatim>\<open>std::max(a, b)\<close> on \<^verbatim>\<open>int\<close>: \<^verbatim>\<open>(a < b) ? b : a\<close>.\<close>

definition std_max :: "int32 \<Rightarrow> int32 \<Rightarrow> int32" where
  "std_max a b = (if sint a < sint b then b else a)"

text \<open>
  The C++ \<^verbatim>\<open>double\<close>. filters.cpp only compares doubles, and a comparison of two doubles is
  the comparison of the numbers they stand for, except that every ordered comparison with a
  NaN is false. A finite double is modelled by the real number it stands for.
\<close>

datatype cdouble = NaN | NegInf | Finite real | PosInf

text \<open>\<^verbatim>\<open>a < b\<close> on doubles.\<close>

fun dless :: "cdouble \<Rightarrow> cdouble \<Rightarrow> bool" where
  "dless NaN b = False"
| "dless a NaN = False"
| "dless a NegInf = False"
| "dless NegInf b = True"
| "dless PosInf b = False"
| "dless (Finite x) PosInf = True"
| "dless (Finite x) (Finite y) = (x < y)"

text \<open>\<^verbatim>\<open>a > b\<close> on doubles.\<close>

definition dgreater :: "cdouble \<Rightarrow> cdouble \<Rightarrow> bool" where
  "dgreater a b = dless b a"

text \<open>\<^verbatim>\<open>a <= b\<close> and \<^verbatim>\<open>a >= b\<close> on doubles: false as soon as one side is a NaN.\<close>

fun dle :: "cdouble \<Rightarrow> cdouble \<Rightarrow> bool" where
  "dle NaN b = False"
| "dle a NaN = False"
| "dle NegInf b = True"
| "dle a PosInf = True"
| "dle PosInf b = False"
| "dle (Finite x) NegInf = False"
| "dle (Finite x) (Finite y) = (x \<le> y)"

definition dge :: "cdouble \<Rightarrow> cdouble \<Rightarrow> bool" where
  "dge a b = dle b a"

text \<open>The implicit conversion of an \<^verbatim>\<open>int\<close> to \<^verbatim>\<open>double\<close>; it is exact.\<close>

definition double_of_int :: "int32 \<Rightarrow> cdouble" where
  "double_of_int n = Finite (real_of_int (sint n))"

text \<open>The exceptions of the standard library that filters.cpp can let through.\<close>

datatype error = invalid_argument | out_of_range

section \<open>Items\<close>

text \<open>
  One entry of the item's JSON array \<^verbatim>\<open>"sockets"\<close>: \<^verbatim>\<open>socket["group"].asInt()\<close> and
  \<^verbatim>\<open>socket["attr"].asString()\<close>.
\<close>

record Socket =
  group_id :: int32
  attr :: string

text \<open>
  The item, as far as filters.cpp reads it: one field for each accessor it calls.
  \<^verbatim>\<open>json_sockets\<close> is \<^verbatim>\<open>item->json()["sockets"]\<close>. The class is declared in item.h, which
  is not among the sources: the counts and the requirement values are taken to be \<^verbatim>\<open>int\<close>,
  the type \<^verbatim>\<open>Check\<close> receives them in.
\<close>

record Item =
  PrettyName :: string
  properties :: "string \<rightharpoonup> string"
  requirements :: "string \<rightharpoonup> int32"
  sockets :: int32
  links :: int32
  sockets_r :: int32
  sockets_g :: int32
  sockets_b :: int32
  sockets_w :: int32
  json_sockets :: "Socket list"

section \<open>Filters and their data\<close>

text \<open>
  The filter classes. The classes derived from \<^verbatim>\<open>MinMaxFilter\<close> differ in
  \<^verbatim>\<open>IsValuePresent\<close> and \<^verbatim>\<open>GetValue\<close> only.
\<close>

datatype MinMaxVariant =
    SimplePropertyFilter string
  | RequiredStatFilter string
  | ItemMethodFilter "Item \<Rightarrow> cdouble"
  | SocketsFilter
  | LinksFilter

datatype Filter =
    NameSearchFilter
  | MinMaxFilter MinMaxVariant
  | SocketsColorsFilter
  | LinksColorsFilter

record FilterData =
  filter_ptr :: Filter
  text_query :: string
  min_val :: cdouble
  max_val :: cdouble
  min_filled :: bool
  max_filled :: bool
  r_val :: int32
  g_val :: int32
  b_val :: int32
  r_filled :: bool
  g_filled :: bool
  b_filled :: bool

text \<open>
  \<^verbatim>\<open>FilterData::FilterData(Filter *filter)\<close>. The constructor initialises \<^verbatim>\<open>filter_\<close>,
  \<^verbatim>\<open>text_query\<close> and the five flags; \<^verbatim>\<open>min\<close>, \<^verbatim>\<open>max\<close>, \<^verbatim>\<open>r\<close>, \<^verbatim>\<open>g\<close> and \<^verbatim>\<open>b\<close> keep whatever the
  memory held, which the last five arguments stand for.
\<close>

definition FilterData_new ::
  "Filter \<Rightarrow> cdouble \<Rightarrow> cdouble \<Rightarrow> int32 \<Rightarrow> int32 \<Rightarrow> int32 \<Rightarrow> FilterData" where
  "FilterData_new flt mn mx r0 g0 b0 =
     \<lparr>filter_ptr = flt, text_query = '''',
      min_val = mn, max_val = mx, min_filled = False, max_filled = False,
      r_val = r0, g_val = g0, b_val = b0,
      r_filled = False, g_filled = False, b_filled = False\<rparr>"

section \<open>NameSearchFilter\<close>

text \<open>\<^verbatim>\<open>::tolower\<close> on a byte, in the C locale: the 26 capital letters move, nothing else does.\<close>

definition tolower :: "char \<Rightarrow> char" where
  "tolower c =
     (let n = (of_char c :: nat) in if 65 \<le> n \<and> n \<le> 90 then char_of (n + 32) else c)"

text \<open>
  \<^verbatim>\<open>std::string::find(str)\<close>: the position of the first occurrence of \<^verbatim>\<open>str\<close>, or
  \<^verbatim>\<open>npos\<close> (here \<open>None\<close>) when there is none.
\<close>

fun find_str :: "string \<Rightarrow> string \<Rightarrow> nat option" where
  "find_str [] str = (if str = [] then Some 0 else None)"
| "find_str (c # cs) str =
     (if prefix str (c # cs) then Some 0 else map_option Suc (find_str cs str))"

definition NameSearchFilter_Matches :: "Item \<Rightarrow> FilterData \<Rightarrow> bool" where
  "NameSearchFilter_Matches item data =
     (let query = map tolower (text_query data);
          name = map tolower (PrettyName item)
      in find_str name query \<noteq> None)"

section \<open>MinMaxFilter\<close>

text \<open>
  \<^verbatim>\<open>MinMaxFilter::Matches\<close>, over the two virtual functions it calls. An exception thrown
  by \<^verbatim>\<open>GetValue\<close> leaves the function, which has no handler.
\<close>

definition MinMaxFilter_Matches ::
  "(Item \<Rightarrow> bool) \<Rightarrow> (Item \<Rightarrow> error + cdouble) \<Rightarrow> Item \<Rightarrow> FilterData \<Rightarrow> error + bool" where
  "MinMaxFilter_Matches is_value_present get_value item data =
     (if is_value_present item then
        (case get_value item of
           Inl e \<Rightarrow> Inl e
         | Inr val \<Rightarrow>
             if min_filled data \<and> dgreater (min_val data) val then Inr False
             else if max_filled data \<and> dless (max_val data) val then Inr False
             else Inr True)
      else Inr (\<not> max_filled data \<and> \<not> min_filled data))"

text \<open>
  Modelled from the spec: the \<^verbatim>\<open>IsValuePresent\<close> of \<^verbatim>\<open>RequiredStatFilter\<close>,
  \<^verbatim>\<open>ItemMethodFilter\<close>, \<^verbatim>\<open>SocketsFilter\<close> and \<^verbatim>\<open>LinksFilter\<close>, which filters.h declares
  and filters.cpp does not define; filters.h is not among the sources. The specification
  says of each of these filters that its value is always present.
\<close>

definition always_present :: "Item \<Rightarrow> bool" where
  "always_present item = True"

text \<open>
  \<^verbatim>\<open>IsValuePresent\<close>. \<^verbatim>\<open>SimplePropertyFilter::IsValuePresent\<close> is
  \<^verbatim>\<open>item->properties().count(property_)\<close>, converted to \<^verbatim>\<open>bool\<close>.
\<close>

fun IsValuePresent :: "MinMaxVariant \<Rightarrow> Item \<Rightarrow> bool" where
  "IsValuePresent (SimplePropertyFilter property) item = (properties item property \<noteq> None)"
| "IsValuePresent (RequiredStatFilter property) item = always_present item"
| "IsValuePresent (ItemMethodFilter func) item = always_present item"
| "IsValuePresent SocketsFilter item = always_present item"
| "IsValuePresent LinksFilter item = always_present item"

text \<open>
  \<^verbatim>\<open>GetValue\<close>. \<^verbatim>\<open>std::stod\<close> belongs to the standard library and is a parameter: it returns
  the double a string converts to, or the exception it throws. \<^verbatim>\<open>std::map::at\<close> throws
  \<^verbatim>\<open>std::out_of_range\<close> on a key that is missing.
\<close>

fun GetValue :: "(string \<Rightarrow> error + cdouble) \<Rightarrow> MinMaxVariant \<Rightarrow> Item \<Rightarrow> error + cdouble" where
  "GetValue stod (SimplePropertyFilter property) item =
     (case properties item property of
        None \<Rightarrow> Inl out_of_range
      | Some s \<Rightarrow> stod s)"
| "GetValue stod (RequiredStatFilter property) item =
     (case requirements item property of
        Some n \<Rightarrow> Inr (double_of_int n)
      | None \<Rightarrow> Inr (Finite 0))"
| "GetValue stod (ItemMethodFilter func) item = Inr (func item)"
| "GetValue stod SocketsFilter item = Inr (double_of_int (sockets item))"
| "GetValue stod LinksFilter item = Inr (double_of_int (links item))"

section \<open>SocketsColorsFilter and LinksColorsFilter\<close>

text \<open>\<^verbatim>\<open>SocketsColorsFilter::Check\<close>.\<close>

definition Check ::
  "int32 \<Rightarrow> int32 \<Rightarrow> int32 \<Rightarrow> int32 \<Rightarrow> int32 \<Rightarrow> int32 \<Rightarrow> int32 \<Rightarrow> bool" where
  "Check need_r need_g need_b got_r got_g got_b got_w =
     (let diff = std_max 0 (need_r - got_r) + std_max 0 (need_g - got_g)
                 + std_max 0 (need_b - got_b)
      in sint diff \<le> sint got_w)"

definition SocketsColorsFilter_Matches :: "Item \<Rightarrow> FilterData \<Rightarrow> bool" where
  "SocketsColorsFilter_Matches item data =
     (if \<not> r_filled data \<and> \<not> g_filled data \<and> \<not> b_filled data then True
      else
        let need_r = (if r_filled data then r_val data else 0);
            need_g = (if g_filled data then g_val data else 0);
            need_b = (if b_filled data then b_val data else 0)
        in Check need_r need_g need_b
             (sockets_r item) (sockets_g item) (sockets_b item) (sockets_w item))"

text \<open>The local variables of the loop of \<^verbatim>\<open>LinksColorsFilter::Matches\<close>.\<close>

record LinkScan =
  current :: int32
  got_r :: int32
  got_g :: int32
  got_b :: int32
  got_w :: int32

text \<open>Their initial values: \<^verbatim>\<open>int current = 0, got_r = 0, got_g = 0, got_b = 0, got_w = 0\<close>.\<close>

definition scan_init :: LinkScan where
  "scan_init = \<lparr>current = 0, got_r = 0, got_g = 0, got_b = 0, got_w = 0\<rparr>"

text \<open>
  The \<^verbatim>\<open>switch\<close> on \<^verbatim>\<open>socket["attr"].asString()[0]\<close>. The first character of an empty
  string is the terminating zero, which no case matches.
\<close>

definition count_socket :: "Socket \<Rightarrow> LinkScan \<Rightarrow> LinkScan" where
  "count_socket socket st =
     (case attr socket of
        [] \<Rightarrow> st
      | c # cs \<Rightarrow>
          if c = CHR ''S'' then st\<lparr>got_r := got_r st + 1\<rparr>
          else if c = CHR ''D'' then st\<lparr>got_g := got_g st + 1\<rparr>
          else if c = CHR ''I'' then st\<lparr>got_b := got_b st + 1\<rparr>
          else if c = CHR ''G'' then st\<lparr>got_w := got_w st + 1\<rparr>
          else st)"

text \<open>
  One turn of the loop: \<open>None\<close> when the body returns \<^verbatim>\<open>true\<close>, otherwise the variables
  after the turn. On a change of group the source assigns
  \<^verbatim>\<open>got_r = got_g = got_b = 0\<close>; \<^verbatim>\<open>got_w\<close> is not among them.
\<close>

definition loop_body :: "int32 \<Rightarrow> int32 \<Rightarrow> int32 \<Rightarrow> LinkScan \<Rightarrow> Socket \<Rightarrow> LinkScan option" where
  "loop_body need_r need_g need_b st socket =
     (if current st \<noteq> group_id socket
         \<and> Check need_r need_g need_b (got_r st) (got_g st) (got_b st) (got_w st)
      then None
      else
        let st1 = (if current st \<noteq> group_id socket
                   then st\<lparr>got_r := 0, got_g := 0, got_b := 0\<rparr> else st);
            st2 = st1\<lparr>current := group_id socket\<rparr>
        in Some (count_socket socket st2))"

text \<open>The loop, and the \<^verbatim>\<open>Check\<close> that follows it.\<close>

fun links_loop :: "int32 \<Rightarrow> int32 \<Rightarrow> int32 \<Rightarrow> LinkScan \<Rightarrow> Socket list \<Rightarrow> bool" where
  "links_loop need_r need_g need_b st [] =
     Check need_r need_g need_b (got_r st) (got_g st) (got_b st) (got_w st)"
| "links_loop need_r need_g need_b st (socket # rest) =
     (case loop_body need_r need_g need_b st socket of
        None \<Rightarrow> True
      | Some st' \<Rightarrow> links_loop need_r need_g need_b st' rest)"

definition LinksColorsFilter_Matches :: "Item \<Rightarrow> FilterData \<Rightarrow> bool" where
  "LinksColorsFilter_Matches item data =
     (if \<not> r_filled data \<and> \<not> g_filled data \<and> \<not> b_filled data then True
      else
        let need_r = (if r_filled data then r_val data else 0);
            need_g = (if g_filled data then g_val data else 0);
            need_b = (if b_filled data then b_val data else 0)
        in links_loop need_r need_g need_b scan_init (json_sockets item))"

section \<open>Dispatch\<close>

text \<open>The virtual call \<^verbatim>\<open>filter_->Matches(item, this)\<close> of \<^verbatim>\<open>FilterData::Matches\<close>.\<close>

fun Matches :: "(string \<Rightarrow> error + cdouble) \<Rightarrow> Filter \<Rightarrow> Item \<Rightarrow> FilterData \<Rightarrow> error + bool" where
  "Matches stod NameSearchFilter item data = Inr (NameSearchFilter_Matches item data)"
| "Matches stod (MinMaxFilter variant) item data =
     MinMaxFilter_Matches (IsValuePresent variant) (GetValue stod variant) item data"
| "Matches stod SocketsColorsFilter item data = Inr (SocketsColorsFilter_Matches item data)"
| "Matches stod LinksColorsFilter item data = Inr (LinksColorsFilter_Matches item data)"

definition FilterData_Matches ::
  "(string \<Rightarrow> error + cdouble) \<Rightarrow> Item \<Rightarrow> FilterData \<Rightarrow> error + bool" where
  "FilterData_Matches stod item data = Matches stod (filter_ptr data) item data"

section \<open>The specification's reading of the colour check\<close>

text \<open>
  The specification states \<^verbatim>\<open>Check\<close> over the integers: the deficit of a colour is
  max(0, need - got), and the check is satisfied when the three deficits together are at
  most the number of white sockets. These definitions follow its words, to be compared with
  \<open>Check\<close>; \<open>need_of\<close> is the need of a colour, 0 when the colour is not filled.
\<close>

definition deficit :: "int \<Rightarrow> int \<Rightarrow> int" where
  "deficit need got = max 0 (need - got)"

definition need_of :: "bool \<Rightarrow> int32 \<Rightarrow> int" where
  "need_of filled n = (if filled then sint n else 0)"

text \<open>The integers an \<^verbatim>\<open>int\<close> can hold.\<close>

definition in_int_range :: "int \<Rightarrow> bool" where
  "in_int_range x = (- (2 ^ 31) \<le> x \<and> x < 2 ^ 31)"

section \<open>The specification's reading of the link scan\<close>

text \<open>
  The specification partitions the sockets into contiguous link groups, a boundary wherever
  the group id changes from the previous socket, counts the colours of each group on its
  own, and asks whether some group satisfies \<^verbatim>\<open>Check\<close>. These definitions follow its words,
  to be compared with \<open>links_loop\<close>.
\<close>

fun link_groups :: "Socket list \<Rightarrow> Socket list list" where
  "link_groups [] = []"
| "link_groups (s # ss) =
     (case link_groups ss of
        (t # g) # gs \<Rightarrow>
          if group_id t = group_id s then (s # t # g) # gs else [s] # (t # g) # gs
      | _ \<Rightarrow> [[s]])"

definition group_counts :: "Socket list \<Rightarrow> LinkScan" where
  "group_counts g = fold count_socket g scan_init"

definition group_satisfies :: "int32 \<Rightarrow> int32 \<Rightarrow> int32 \<Rightarrow> Socket list \<Rightarrow> bool" where
  "group_satisfies need_r need_g need_b g =
     (let c = group_counts g
      in Check need_r need_g need_b (got_r c) (got_g c) (got_b c) (got_w c))"

definition some_group_satisfies :: "int32 \<Rightarrow> int32 \<Rightarrow> int32 \<Rightarrow> Socket list \<Rightarrow> bool" where
  "some_group_satisfies need_r need_g need_b ss =
     list_ex (group_satisfies need_r need_g need_b) (link_groups ss)"

text \<open>A white socket: one the \<^verbatim>\<open>switch\<close> counts in \<^verbatim>\<open>got_w\<close>.\<close>

definition is_white :: "Socket \<Rightarrow> bool" where
  "is_white socket = (case attr socket of [] \<Rightarrow> False | c # cs \<Rightarrow> c = CHR ''G'')"

text \<open>The specification's transition: on a change of group all four counters are reset.\<close>

definition spec_loop_body :: "int32 \<Rightarrow> int32 \<Rightarrow> int32 \<Rightarrow> LinkScan \<Rightarrow> Socket \<Rightarrow> LinkScan option" where
  "spec_loop_body need_r need_g need_b st socket =
     (if current st \<noteq> group_id socket
         \<and> Check need_r need_g need_b (got_r st) (got_g st) (got_b st) (got_w st)
      then None
      else
        let st1 = (if current st \<noteq> group_id socket
                   then st\<lparr>got_r := 0, got_g := 0, got_b := 0, got_w := 0\<rparr> else st);
            st2 = st1\<lparr>current := group_id socket\<rparr>
        in Some (count_socket socket st2))"

section \<open>Forms\<close>

text \<open>
  The line edits a filter owns, each by its text. What Qt does to a text
  (\<^verbatim>\<open>QString::toDouble\<close>, \<^verbatim>\<open>QString::toInt\<close>, \<^verbatim>\<open>QString::number\<close>, and the passage between a
  \<^verbatim>\<open>QString\<close> and a \<^verbatim>\<open>std::string\<close>) is a parameter of the functions below. filters.cpp
  defines \<^verbatim>\<open>FromForm\<close>, \<^verbatim>\<open>ToForm\<close> and \<^verbatim>\<open>ResetForm\<close> for \<^verbatim>\<open>NameSearchFilter\<close>, \<^verbatim>\<open>MinMaxFilter\<close>
  and \<^verbatim>\<open>SocketsColorsFilter\<close> and for no other class: the filters derived from
  \<^verbatim>\<open>MinMaxFilter\<close>, and \<^verbatim>\<open>LinksColorsFilter\<close>, have no definition of their own.
\<close>

record NameSearchForm =
  textbox :: string

record MinMaxForm =
  textbox_min :: string
  textbox_max :: string

record SocketsColorsForm =
  textbox_r :: string
  textbox_g :: string
  textbox_b :: string



definition NameSearchFilter_ResetForm :: "NameSearchForm \<Rightarrow> NameSearchForm" where
  "NameSearchFilter_ResetForm form = form\<lparr>textbox := []\<rparr>"

definition MinMaxFilter_FromForm ::
  "(string \<Rightarrow> cdouble) \<Rightarrow> MinMaxForm \<Rightarrow> FilterData \<Rightarrow> FilterData" where
  "MinMaxFilter_FromForm toDouble form data =
     data\<lparr>min_filled := (length (textbox_min form) > 0),
          min_val := toDouble (textbox_min form),
          max_filled := (length (textbox_max form) > 0),
          max_val := toDouble (textbox_max form)\<rparr>"

definition MinMaxFilter_ToForm ::
  "(cdouble \<Rightarrow> string) \<Rightarrow> FilterData \<Rightarrow> MinMaxForm \<Rightarrow> MinMaxForm" where
  "MinMaxFilter_ToForm number data form =
     form\<lparr>textbox_min := (if min_filled data then number (min_val data) else []),
          textbox_max := (if max_filled data then number (max_val data) else [])\<rparr>"

definition MinMaxFilter_ResetForm :: "MinMaxForm \<Rightarrow> MinMaxForm" where
  "MinMaxFilter_ResetForm form = form\<lparr>textbox_min := [], textbox_max := []\<rparr>"


text \<open>\<^verbatim>\<open>SocketsColorsFilter::ToForm\<close> has no \<^verbatim>\<open>else\<close>: a field that is not filled keeps its text.\<close>

definition SocketsColorsFilter_ToForm ::
  "(int32 \<Rightarrow> string) \<Rightarrow> FilterData \<Rightarrow> SocketsColorsForm \<Rightarrow> SocketsColorsForm" where
  "SocketsColorsFilter_ToForm number data form =
     form\<lparr>textbox_r := (if r_filled data then number (r_val data) else textbox_r form),
          textbox_g := (if g_filled data then number (g_val data) else textbox_g form),
          textbox_b := (if b_filled data then number (b_val data) else textbox_b form)\<rparr>"

definition SocketsColorsFilter_ResetForm :: "SocketsColorsForm \<Rightarrow> SocketsColorsForm" where
  "SocketsColorsFilter_ResetForm form = form\<lparr>textbox_r := [], textbox_g := [], textbox_b := []\<rparr>"

section \<open>Library functions on decimal input\<close>

text \<open>
  \<^verbatim>\<open>std::stod\<close> on a string that, after white space and a sign, starts with a plain decimal
  literal (digits, then possibly a point and digits), or with no digit and no point at
  all: the literal's value in the first case, \<^verbatim>\<open>std::invalid_argument\<close> in the second.
  Exponents, hexadecimal literals, infinities, NaNs and rounding are left out; the examples
  below do not need them.
\<close>

definition isspace :: "char \<Rightarrow> bool" where
  "isspace c = (let n = (of_char c :: nat) in n = 32 \<or> (9 \<le> n \<and> n \<le> 13))"

definition isdigit :: "char \<Rightarrow> bool" where
  "isdigit c = (let n = (of_char c :: nat) in 48 \<le> n \<and> n \<le> 57)"

definition decimal :: "string \<Rightarrow> nat" where
  "decimal ds = foldl (\<lambda>acc c. 10 * acc + (of_char c - 48)) 0 ds"

definition stod_decimal :: "string \<Rightarrow> error + cdouble" where
  "stod_decimal s =
     (let s1 = dropWhile isspace s;
          neg = (case s1 of c # cs \<Rightarrow> c = CHR ''-'' | [] \<Rightarrow> False);
          s2 = (case s1 of
                  c # cs \<Rightarrow> if c = CHR ''-'' \<or> c = CHR ''+'' then cs else s1
                | [] \<Rightarrow> []);
          ip = takeWhile isdigit s2;
          fp = (case dropWhile isdigit s2 of
                  c # cs \<Rightarrow> if c = CHR ''.'' then takeWhile isdigit cs else []
                | [] \<Rightarrow> []);
          magnitude = real (decimal ip) + real (decimal fp) / 10 ^ length fp
      in if ip = [] \<and> fp = [] then Inl invalid_argument
         else Inr (Finite (if neg then - magnitude else magnitude)))"

text \<open>
  The Qt conversions of whole numbers. \<^verbatim>\<open>QString::number(int)\<close> writes the decimal digits
  after a minus sign for a negative number. \<^verbatim>\<open>QString::toInt\<close> is given on a text of decimal
  digits with an optional sign; it returns 0 for a text it cannot convert.
\<close>

fun digits :: "nat \<Rightarrow> string" where
  "digits n =
     (if n < 10 then [char_of (48 + n)] else digits (n div 10) @ [char_of (48 + n mod 10)])"

declare digits.simps [simp del]



text \<open>
  \<^verbatim>\<open>QString::toDouble\<close> on a decimal literal: an optional sign, digits with an optional point
  and fraction digits, one digit at least, and an optional exponent (\<^verbatim>\<open>e\<close> or \<^verbatim>\<open>E\<close>, an
  optional sign, digits). The value is the literal's as a real number: the rounding to a
  binary double and the overflow of a large exponent are left out. For every other text
  the result is 0, which Qt returns for a text it cannot convert; the white space around
  a number and the texts \<^verbatim>\<open>inf\<close> and \<^verbatim>\<open>nan\<close>, which Qt accepts, are left out too.
\<close>

definition exponent_of :: "string \<Rightarrow> int option" where
  "exponent_of s =
     (case s of
        [] \<Rightarrow> Some 0
      | c # cs \<Rightarrow>
          if c = CHR ''e'' \<or> c = CHR ''E'' then
            (let neg = (case cs of d # ds \<Rightarrow> d = CHR ''-'' | [] \<Rightarrow> False);
                 es = (case cs of
                         d # ds \<Rightarrow> if d = CHR ''-'' \<or> d = CHR ''+'' then ds else cs
                       | [] \<Rightarrow> [])
             in if es \<noteq> [] \<and> list_all isdigit es
                then Some (if neg then - int (decimal es) else int (decimal es))
                else None)
          else None)"

definition scale10 :: "real \<Rightarrow> int \<Rightarrow> real" where
  "scale10 x e = (if 0 \<le> e then x * 10 ^ nat e else x / 10 ^ nat (- e))"

definition toDouble_decimal :: "string \<Rightarrow> cdouble" where
  "toDouble_decimal s =
     (let neg = (case s of c # cs \<Rightarrow> c = CHR ''-'' | [] \<Rightarrow> False);
          s2 = (case s of
                  c # cs \<Rightarrow> if c = CHR ''-'' \<or> c = CHR ''+'' then cs else s
                | [] \<Rightarrow> []);
          ip = takeWhile isdigit s2;
          r1 = dropWhile isdigit s2;
          fp = (case r1 of
                  c # cs \<Rightarrow> if c = CHR ''.'' then takeWhile isdigit cs else []
                | [] \<Rightarrow> []);
          r2 = (case r1 of
                  c # cs \<Rightarrow> if c = CHR ''.'' then dropWhile isdigit cs else r1
                | [] \<Rightarrow> []);
          magnitude = real (decimal ip) + real (decimal fp) / 10 ^ length fp
      in if ip = [] \<and> fp = [] then Finite 0
         else case exponent_of r2 of
                None \<Rightarrow> Finite 0
              | Some e \<Rightarrow> Finite (scale10 (if neg then - magnitude else magnitude) e))"

text \<open>
  \<^verbatim>\<open>QString::number(double n, char format = 'g', int precision = 6)\<close>, which filters.cpp
  calls with the double alone: the value is rounded to six significant decimal digits and
  written as \<^verbatim>\<open>printf\<close> writes \<^verbatim>\<open>%g\<close>. With X the decimal exponent of the rounded value, the
  notation is scientific when X is below -4 or at least 6 and fixed otherwise; the zeros
  that end the fraction are dropped, and the point with them when no fraction is left; the
  exponent has a sign and two digits at least. The double is taken as the real number it
  holds. A tie between two numbers of six digits goes to the even one. The decimal
  exponent of a number below 1 is searched down to -399, below every positive double.
\<close>

definition round_half_even :: "real \<Rightarrow> nat" where
  "round_half_even y =
     (let f = nat \<lfloor>y\<rfloor>; r = y - real f
      in if r < 1 / 2 then f else if 1 / 2 < r then f + 1 else if even f then f else f + 1)"

definition decimal_exponent :: "real \<Rightarrow> int" where
  "decimal_exponent x =
     (if 1 \<le> x then int (length (digits (nat \<lfloor>x\<rfloor>))) - 1
      else - int (length (takeWhile (\<lambda>k. x * 10 ^ k < 1) [1..<400])) - 1)"

definition strip_zeros :: "string \<Rightarrow> string" where
  "strip_zeros s = rev (dropWhile (\<lambda>c. c = CHR ''0'') (rev s))"

definition exponent_text :: "int \<Rightarrow> string" where
  "exponent_text e =
     (let a = nat \<bar>e\<bar>
      in CHR ''e'' # (if e < 0 then CHR ''-'' else CHR ''+'')
           # (if a < 10 then CHR ''0'' # digits a else digits a))"

definition number_positive :: "real \<Rightarrow> string" where
  "number_positive x =
     (let X0 = decimal_exponent x;
          m0 = round_half_even (scale10 x (5 - X0));
          X = (if m0 = 1000000 then X0 + 1 else X0);
          ds = digits (if m0 = 1000000 then 100000 else m0)
      in if X < - 4 \<or> 6 \<le> X then
           (let frac = strip_zeros (tl ds)
            in hd ds # (if frac = [] then [] else CHR ''.'' # frac) @ exponent_text X)
         else if 0 \<le> X then
           (let frac = strip_zeros (drop (nat X + 1) ds)
            in take (nat X + 1) ds @ (if frac = [] then [] else CHR ''.'' # frac))
         else ''0.'' @ replicate (nat (- X - 1)) (CHR ''0'') @ strip_zeros ds)"

definition number_double_decimal :: "cdouble \<Rightarrow> string" where
  "number_double_decimal d =
     (case d of
        Finite x \<Rightarrow>
          if x = 0 then ''0''
          else if x < 0 then CHR ''-'' # number_positive (- x)
          else number_positive x
      | NaN \<Rightarrow> ''nan''
      | PosInf \<Rightarrow> ''inf''
      | NegInf \<Rightarrow> ''-inf'')"


text \<open>
  A double has at most six significant decimal digits when it is 0 or when, scaled by the
  power of ten that puts its first digit in the sixth place before the point, it is a
  whole number (of six digits).
\<close>

definition six_significant :: "cdouble \<Rightarrow> bool" where
  "six_significant d =
     (case d of
        Finite x \<Rightarrow>
          x = 0
          \<or> (let y = scale10 \<bar>x\<bar> (5 - decimal_exponent \<bar>x\<bar>)
             in y = real (nat \<lfloor>y\<rfloor>) \<and> 100000 \<le> y \<and> y < 1000000)
      | NaN \<Rightarrow> False
      | PosInf \<Rightarrow> False
      | NegInf \<Rightarrow> False)"

section \<open>Example items, filter data and forms\<close>

text \<open>An item of quality 20 with a white socket in group 0 and a red socket in group 1.\<close>

definition example_item :: Item where
  "example_item =
     \<lparr>PrettyName = ''Shavronne's Wrappings'',
      properties = [''Quality'' \<mapsto> ''20''],
      requirements = [''Level'' \<mapsto> 62],
      sockets = 2, links = 1,
      sockets_r = 1, sockets_g = 0, sockets_b = 0, sockets_w = 1,
      json_sockets = [\<lparr>group_id = 0, attr = ''G''\<rparr>, \<lparr>group_id = 1, attr = ''S''\<rparr>]\<rparr>"

text \<open>The same item with a quality that is not a number.\<close>

definition unparsable_item :: Item where
  "unparsable_item = example_item\<lparr>properties := [''Quality'' \<mapsto> ''abc'']\<rparr>"

text \<open>An item without sockets.\<close>

definition no_sockets_item :: Item where
  "no_sockets_item =
     example_item
       \<lparr>sockets := 0, links := 0,
        sockets_r := 0, sockets_g := 0, sockets_b := 0, sockets_w := 0,
        json_sockets := []\<rparr>"

text \<open>An item with two white sockets in group 0 and a green socket in group 1.\<close>

definition links_item :: Item where
  "links_item =
     example_item
       \<lparr>sockets := 3, links := 2,
        sockets_r := 0, sockets_g := 1, sockets_b := 0, sockets_w := 2,
        json_sockets :=
          [\<lparr>group_id = 0, attr = ''G''\<rparr>, \<lparr>group_id = 0, attr = ''G''\<rparr>,
           \<lparr>group_id = 1, attr = ''D''\<rparr>]\<rparr>"

text \<open>The data of a new filter on the property Quality, and three ways of filling it.\<close>

definition quality_data :: FilterData where
  "quality_data =
     FilterData_new (MinMaxFilter (SimplePropertyFilter ''Quality'')) (Finite 0) (Finite 0) 0 0 0"

definition nan_min_data :: FilterData where
  "nan_min_data = quality_data\<lparr>min_filled := True, min_val := NaN\<rparr>"

definition exact_bounds_data :: FilterData where
  "exact_bounds_data =
     quality_data\<lparr>min_filled := True, min_val := Finite 20,
                  max_filled := True, max_val := Finite 20\<rparr>"

definition min_one_data :: FilterData where
  "min_one_data = quality_data\<lparr>min_filled := True, min_val := Finite 1\<rparr>"

text \<open>The data of a filter on linked colours: two red sockets, and three green sockets.\<close>

definition two_red_data :: FilterData where
  "two_red_data =
     (FilterData_new LinksColorsFilter (Finite 0) (Finite 0) 0 0 0)
       \<lparr>r_filled := True, r_val := 2\<rparr>"

definition three_green_data :: FilterData where
  "three_green_data =
     (FilterData_new LinksColorsFilter (Finite 0) (Finite 0) 0 0 0)
       \<lparr>g_filled := True, g_val := 3\<rparr>"

text \<open>
  The data of a filter on socket colours: two red sockets, and as many red and green
  sockets as an \<^verbatim>\<open>int\<close> can hold.
\<close>

definition sockets_two_red_data :: FilterData where
  "sockets_two_red_data =
     (FilterData_new SocketsColorsFilter (Finite 0) (Finite 0) 0 0 0)
       \<lparr>r_filled := True, r_val := 2\<rparr>"

definition int_max_data :: FilterData where
  "int_max_data =
     (FilterData_new SocketsColorsFilter (Finite 0) (Finite 0) 0 0 0)
       \<lparr>r_filled := True, r_val := 2147483647, g_filled := True, g_val := 2147483647\<rparr>"




section \<open>Facts about the library models\<close>

lemma dle_iff_not_dless: "a \<noteq> NaN \<Longrightarrow> b \<noteq> NaN \<Longrightarrow> dle a b = (\<not> dless b a)"
  by (cases a; cases b) auto

lemma dle_refl: "a \<noteq> NaN \<Longrightarrow> dle a a"
  by (cases a) auto

lemma dless_irrefl: "\<not> dless a a"
  by (cases a) auto

lemma find_str_None_iff: "find_str name str = None \<longleftrightarrow> \<not> sublist str name"
  by (induction name) (auto simp: sublist_Cons_right)

lemma find_str_empty: "find_str name [] = Some 0"
  by (cases name) simp_all

lemma stod_decimal_20: "stod_decimal ''20'' = Inr (Finite 20)"
  by (simp add: stod_decimal_def isspace_def isdigit_def decimal_def)

lemma stod_decimal_abc: "stod_decimal ''abc'' = Inl invalid_argument"
  by (simp add: stod_decimal_def isspace_def isdigit_def decimal_def)






lemma digits_not_Nil: "digits n \<noteq> []"
  by (subst digits.simps) simp


lemma isdigit_not_sign: "isdigit c \<Longrightarrow> c \<noteq> CHR ''-'' \<and> c \<noteq> CHR ''+''"
  by (auto simp: isdigit_def)



text \<open>
  \<^verbatim>\<open>QString::toDouble\<close> reads every double of at most six significant digits back from the
  text \<^verbatim>\<open>QString::number\<close> writes for it.
\<close>

lemma foldl_decimal_acc:
  fixes f :: "nat \<Rightarrow> char \<Rightarrow> nat"
  assumes f: "\<And>acc c. f acc c = 10 * acc + (of_char c - 48)"
  shows "foldl f a ys = a * 10 ^ length ys + foldl f 0 ys"
proof (induction ys arbitrary: a)
  case Nil
  show ?case by simp
next
  case (Cons y ys)
  have "foldl f a (y # ys) = foldl f (f a y) ys"
    by simp
  also have "\<dots> = f a y * 10 ^ length ys + foldl f 0 ys"
    by (rule Cons.IH)
  also have "\<dots> = a * 10 ^ length (y # ys) + (f 0 y * 10 ^ length ys + foldl f 0 ys)"
    by (simp add: f algebra_simps)
  also have "f 0 y * 10 ^ length ys + foldl f 0 ys = foldl f 0 (y # ys)"
    using Cons.IH [of "f 0 y"] by simp
  finally show ?case .
qed

lemma decimal_append: "decimal (xs @ ys) = decimal xs * 10 ^ length ys + decimal ys"
  unfolding decimal_def foldl_append
  by (rule foldl_decimal_acc) simp





lemma digit_prefix:
  assumes "list_all isdigit ds" "r = [] \<or> \<not> isdigit (hd r)"
  shows "takeWhile isdigit (ds @ r) = ds" "dropWhile isdigit (ds @ r) = r"
proof -
  from assms(2) have "takeWhile isdigit r = []" "dropWhile isdigit r = r"
    by (cases r; auto)+
  with assms(1) show "takeWhile isdigit (ds @ r) = ds" "dropWhile isdigit (ds @ r) = r"
    by (simp_all add: takeWhile_append2 dropWhile_append2 list_all_iff)
qed



lemma not_isdigit_point_e: "\<not> isdigit (CHR ''.'')" "\<not> isdigit (CHR ''e'')"
  by (simp_all add: isdigit_def)


lemma toDouble_decimal_literal:
  assumes ip: "ip \<noteq> []" "list_all isdigit ip" and fp: "list_all isdigit fp"
    and et: "exponent_of et = Some e" "et = [] \<or> hd et = CHR ''e''"
  shows "toDouble_decimal
           ((if neg then [CHR ''-''] else []) @ ip @ (if fp = [] then [] else CHR ''.'' # fp) @ et)
         = Finite (scale10
             (if neg then - (real (decimal ip) + real (decimal fp) / 10 ^ length fp)
              else real (decimal ip) + real (decimal fp) / 10 ^ length fp) e)"
proof -
  define rest where "rest = (if fp = [] then [] else CHR ''.'' # fp) @ et"
  obtain c cs where c: "ip = c # cs" "isdigit c"
    using ip by (cases ip) auto
  then have sign: "c \<noteq> CHR ''-''" "c \<noteq> CHR ''+''"
    using isdigit_not_sign by blast+
  have rest: "rest = [] \<or> \<not> isdigit (hd rest)"
    using et(2) by (auto simp: rest_def not_isdigit_point_e)
  have tw: "takeWhile isdigit (ip @ rest) = ip" "dropWhile isdigit (ip @ rest) = rest"
    using digit_prefix [OF ip(2) rest] by simp_all
  have et': "et = [] \<or> \<not> isdigit (hd et)"
    using et(2) by (auto simp: not_isdigit_point_e)
  have tw2: "takeWhile isdigit (fp @ et) = fp" "dropWhile isdigit (fp @ et) = et"
    using digit_prefix [OF fp et'] by simp_all
  have fpart: "(case rest of c # cs \<Rightarrow> if c = CHR ''.'' then takeWhile isdigit cs else []
                | [] \<Rightarrow> []) = fp"
    using et(2) tw2 by (cases et) (auto simp: rest_def)
  have "(case rest of c # cs \<Rightarrow> if c = CHR ''.'' then dropWhile isdigit cs else rest
                | [] \<Rightarrow> []) = et"
    using et(2) tw2 by (cases et) (auto simp: rest_def)
  then have epart: "(case rest of
                  c # cs \<Rightarrow>
                    if c = CHR ''.'' then dropWhile isdigit cs else dropWhile isdigit (ip @ rest)
                | [] \<Rightarrow> []) = et"
    unfolding tw(2) .
  have "toDouble_decimal ((if neg then [CHR ''-''] else []) @ ip @ rest)
         = Finite (scale10
             (if neg then - (real (decimal ip) + real (decimal fp) / 10 ^ length fp)
              else real (decimal ip) + real (decimal fp) / 10 ^ length fp) e)"
  proof (cases neg)
    case True
    then show ?thesis
      using tw fpart epart et(1) ip(1)
      by (simp add: toDouble_decimal_def Let_def)
  next
    case False
    have nosign: "(case ip @ rest of c # cs \<Rightarrow> c = CHR ''-'' | [] \<Rightarrow> False) = False"
      "(case ip @ rest of
          c # cs \<Rightarrow> if c = CHR ''-'' \<or> c = CHR ''+'' then cs else ip @ rest
        | [] \<Rightarrow> []) = ip @ rest"
      using sign by (simp_all add: c(1))
    have "toDouble_decimal (ip @ rest)
         = Finite (scale10 (real (decimal ip) + real (decimal fp) / 10 ^ length fp) e)"
      using tw fpart epart et(1) ip(1)
      by (simp add: toDouble_decimal_def Let_def nosign)
    with False show ?thesis
      by simp
  qed
  then show ?thesis
    by (simp add: rest_def)
qed









lemma number_positive_not_Nil: "number_positive x \<noteq> []"
  by (simp add: number_positive_def Let_def digits_not_Nil)

lemma number_double_decimal_not_Nil: "number_double_decimal d \<noteq> []"
  by (cases d) (simp_all add: number_double_decimal_def number_positive_not_Nil)


lemma toDouble_decimal_Nil: "toDouble_decimal [] = Finite 0"
  by (simp add: toDouble_decimal_def)


text \<open>
  Every whole number below a million has at most six significant digits, and so has the
  number read from a text of decimal digits that is below a million.
\<close>

lemma digits_bounds:
  "0 < n \<Longrightarrow> 10 ^ (length (digits n) - 1) \<le> n \<and> n < 10 ^ length (digits n)"
proof (induction n rule: digits.induct)
  case (1 n)
  show ?case
  proof (cases "n < 10")
    case True
    with 1(2) show ?thesis
      by (subst (1 2) digits.simps) simp
  next
    case False
    then have pos: "0 < n div 10"
      by simp
    have ne: "length (digits (n div 10)) \<noteq> 0"
      by (simp add: digits_not_Nil)
    from 1(1) [OF False pos]
    have lo: "10 ^ (length (digits (n div 10)) - 1) \<le> n div 10"
      and hi: "n div 10 < 10 ^ length (digits (n div 10))"
      by simp_all
    have len: "length (digits n) = Suc (length (digits (n div 10)))"
      using False by (subst digits.simps) simp
    from lo have "10 * 10 ^ (length (digits (n div 10)) - 1) \<le> n"
      by linarith
    moreover have "(10::nat) * 10 ^ (length (digits (n div 10)) - 1)
        = 10 ^ length (digits (n div 10))"
      using ne by (cases "length (digits (n div 10))") simp_all
    moreover from hi have "n < 10 * 10 ^ length (digits (n div 10))"
      by linarith
    ultimately show ?thesis
      by (simp add: len)
  qed
qed

lemma six_significant_whole:
  assumes "n < 1000000"
  shows "six_significant (Finite (real n))" "six_significant (Finite (- real n))"
proof -
  have "six_significant (Finite (real n)) \<and> six_significant (Finite (- real n))"
  proof (cases "n = 0")
    case True
    then show ?thesis
      by (simp add: six_significant_def)
  next
    case False
    define L where "L = length (digits n)"
    from False have b: "10 ^ (L - 1) \<le> n" "n < 10 ^ L"
      using digits_bounds [of n] by (simp_all add: L_def)
    have L1: "1 \<le> L"
      by (simp add: L_def digits_not_Nil Suc_le_eq)
    have L6: "L \<le> 6"
    proof (rule ccontr)
      assume "\<not> L \<le> 6"
      then have "6 \<le> L - 1"
        by simp
      then have "(10::nat) ^ 6 \<le> 10 ^ (L - 1)"
        by (rule power_increasing) simp
      with b(1) assms show False
        by simp
    qed
    from False have e: "decimal_exponent (real n) = int L - 1"
      by (simp add: decimal_exponent_def L_def)
    have s: "scale10 (real n) (6 - int L) = real (n * 10 ^ (6 - L))"
      using L1 L6 by (simp add: scale10_def nat_diff_distrib')
    have eq1: "(10::nat) ^ (L - 1) * 10 ^ (6 - L) = 100000"
      using L1 L6 by (simp add: power_add [symmetric])
    have lo: "100000 \<le> n * 10 ^ (6 - L)"
      using mult_le_mono1 [OF b(1), of "10 ^ (6 - L)"] unfolding eq1 .
    have eq2: "(10::nat) ^ L * 10 ^ (6 - L) = 1000000"
      using L6 by (simp add: power_add [symmetric])
    have hi: "n * 10 ^ (6 - L) < 1000000"
      using mult_less_mono1 [OF b(2), of "10 ^ (6 - L)"] unfolding eq2 by simp
    from lo hi have "100000 \<le> real (n * 10 ^ (6 - L))" "real (n * 10 ^ (6 - L)) < 1000000"
      by linarith+
    then show ?thesis
      unfolding six_significant_def by (simp add: e s Let_def del: of_nat_mult of_nat_power)
  qed
  then show "six_significant (Finite (real n))" "six_significant (Finite (- real n))"
    by simp_all
qed


lemma toDouble_decimal_digit_text:
  assumes "ds \<noteq> []" "list_all isdigit ds"
  shows "toDouble_decimal ds = Finite (real (decimal ds))"
proof -
  have "exponent_of [] = Some 0"
    by (simp add: exponent_of_def)
  from toDouble_decimal_literal [OF assms, of "[]" "[]" 0 False, OF _ this]
  show ?thesis
    by (simp add: scale10_def decimal_def)
qed

lemma six_significant_digit_text:
  assumes "list_all isdigit ds" "decimal ds < 1000000"
  shows "six_significant (toDouble_decimal ds)"
proof (cases "ds = []")
  case True
  then show ?thesis
    by (simp add: toDouble_decimal_Nil six_significant_def)
next
  case False
  with assms show ?thesis
    by (simp add: toDouble_decimal_digit_text six_significant_whole)
qed

text \<open>
  More generally a number has at most six significant digits when it is a whole number
  below a million times a power of ten. Such is the number read from a decimal literal
  whose digits, the point left out, make a number below a million.
\<close>

lemma scale10_powi: "scale10 x e = x * 10 powi e"
proof (cases "0 \<le> e")
  case True
  then show ?thesis
    by (simp add: scale10_def power_int_def)
next
  case False
  then show ?thesis
    by (simp add: scale10_def power_int_def field_simps)
qed

lemma decimal_exponent_bounds:
  assumes small: "10 powi (- 399) \<le> x"
  shows "10 powi decimal_exponent x \<le> x \<and> x < 10 powi (decimal_exponent x + 1)"
proof (cases "1 \<le> x")
  case True
  define n where "n = nat \<lfloor>x\<rfloor>"
  define L where "L = length (digits n)"
  from True have n: "real n \<le> x" "x < real n + 1" "0 < n"
    by (simp_all add: n_def)
  from n(3) have b: "10 ^ (L - 1) \<le> n" "n < 10 ^ L"
    using digits_bounds [of n] by (simp_all add: L_def)
  have L1: "1 \<le> L"
    by (simp add: L_def digits_not_Nil Suc_le_eq)
  from True have e: "decimal_exponent x = int L - 1"
    by (simp add: decimal_exponent_def L_def n_def)
  have "int L - 1 = int (L - 1)"
    using L1 by simp
  then have lo: "(10::real) powi (int L - 1) = 10 ^ (L - 1)"
    by (simp only: power_int_of_nat)
  have hi: "(10::real) powi (int L - 1 + 1) = 10 ^ L"
    by (simp add: power_int_of_nat)
  have "real (10 ^ (L - 1)) \<le> real n"
    using b(1) by (rule of_nat_mono)
  then have "(10::real) ^ (L - 1) \<le> real n"
    by simp
  with n(1) have 1: "(10::real) ^ (L - 1) \<le> x"
    by linarith
  from b(2) have "n + 1 \<le> 10 ^ L"
    by simp
  then have "real (n + 1) \<le> real (10 ^ L)"
    by (rule of_nat_mono)
  then have "real n + 1 \<le> (10::real) ^ L"
    by simp
  with n(2) have 2: "x < (10::real) ^ L"
    by linarith
  from 1 2 show ?thesis
    unfolding e lo hi by simp
next
  case False
  let ?P = "\<lambda>k. x * 10 ^ k < 1"
  define m where "m = length (takeWhile ?P [1..<400])"
  from False have e: "decimal_exponent x = - int m - 1"
    by (simp add: decimal_exponent_def m_def)
  have "m \<le> 399"
    using length_takeWhile_le [of ?P "[1..<400]"] by (simp add: m_def)
  have "(10::real) powi (- 399) = 1 / 10 ^ 399"
    by (simp add: power_int_def field_simps del: power_numeral)
  with small have big: "\<not> ?P 399"
    by (simp add: field_simps del: power_numeral)
  have "m \<noteq> 399"
  proof
    assume "m = 399"
    then have "takeWhile ?P [1..<400] = [1..<400]"
      using takeWhile_eq_take [of ?P "[1..<400]"] by (simp add: m_def)
    then have "\<forall>k \<in> set [1..<400]. ?P k"
      by (metis set_takeWhileD)
    then have "?P 399"
      by (rule bspec) simp
    with big show False ..
  qed
  with \<open>m \<le> 399\<close> have m: "m < 399"
    by simp
  then have "\<not> ?P ([1..<400] ! m)"
    unfolding m_def by (intro nth_length_takeWhile) simp
  with m have hi: "1 \<le> x * 10 ^ (m + 1)"
    by (simp add: not_less)
  have lo: "x * 10 ^ m < 1"
  proof (cases "m = 0")
    case True
    with False show ?thesis
      by simp
  next
    case nz: False
    then have "takeWhile ?P [1..<400] ! (m - 1) \<in> set (takeWhile ?P [1..<400])"
      by (intro nth_mem) (simp add: m_def)
    then have "?P (takeWhile ?P [1..<400] ! (m - 1))"
      by (rule set_takeWhileD [THEN conjunct2])
    moreover have "takeWhile ?P [1..<400] ! (m - 1) = [1..<400] ! (m - 1)"
      using nz by (intro takeWhile_nth) (simp add: m_def)
    moreover have "[1..<400] ! (m - 1) = m"
      using nz m by simp
    ultimately show ?thesis
      by simp
  qed
  have p1: "(10::real) powi (- int m - 1) = 1 / 10 ^ (m + 1)"
  proof -
    have "- int m - 1 = - int (m + 1)"
      by simp
    then show ?thesis
      by (simp only: power_int_minus power_int_of_nat inverse_eq_divide)
  qed
  have p2: "(10::real) powi (- int m - 1 + 1) = 1 / 10 ^ m"
  proof -
    have "- int m - 1 + 1 = - int m"
      by simp
    then show ?thesis
      by (simp only: power_int_minus power_int_of_nat inverse_eq_divide)
  qed
  from lo hi show ?thesis
    unfolding e p1 p2 by (simp add: field_simps)
qed

lemma decimal_exponent_unique:
  assumes "10 powi a \<le> x" "x < 10 powi (a + 1)" "10 powi b \<le> (x::real)" "x < 10 powi (b + 1)"
  shows "a = b"
proof -
  have "a < b + 1"
  proof (rule ccontr)
    assume "\<not> a < b + 1"
    then have "(10::real) powi (b + 1) \<le> 10 powi a"
      by (intro power_int_increasing) simp_all
    with assms(1,4) show False
      by simp
  qed
  moreover have "b < a + 1"
  proof (rule ccontr)
    assume "\<not> b < a + 1"
    then have "(10::real) powi (a + 1) \<le> 10 powi b"
      by (intro power_int_increasing) simp_all
    with assms(2,3) show False
      by simp
  qed
  ultimately show ?thesis
    by simp
qed


lemma six_significant_decimal:
  assumes M: "0 < M" "M < 1000000" and k: "- 399 \<le> k"
  shows "six_significant (Finite (scale10 (real M) k))"
    and "six_significant (Finite (- scale10 (real M) k))"
proof -
  define x where "x = scale10 (real M) k"
  define L where "L = length (digits M)"
  have x: "x = real M * 10 powi k"
    by (simp add: x_def scale10_powi)
  have p: "(0::real) < 10 powi k"
    by (simp add: zero_less_power_int)
  from M(1) p have pos: "0 < x"
    by (simp add: x)
  from M(1) have b: "10 ^ (L - 1) \<le> M" "M < 10 ^ L"
    using digits_bounds [of M] by (simp_all add: L_def)
  have L1: "1 \<le> L"
    by (simp add: L_def digits_not_Nil Suc_le_eq)
  have L6: "L \<le> 6"
  proof (rule ccontr)
    assume "\<not> L \<le> 6"
    then have "6 \<le> L - 1"
      by simp
    then have "(10::nat) ^ 6 \<le> 10 ^ (L - 1)"
      by (rule power_increasing) simp
    with b(1) M(2) show False
      by simp
  qed
  have "(10::real) powi (- 399) \<le> 10 powi k"
    using k by (intro power_int_increasing) simp_all
  also have "\<dots> \<le> real M * 10 powi k"
    using M(1) p by simp
  finally have small: "10 powi (- 399) \<le> x"
    by (simp add: x)
  have "real (10 ^ (L - 1)) \<le> real M"
    using b(1) by (rule of_nat_mono)
  then have "(10::real) ^ (L - 1) \<le> real M"
    by simp
  then have "10 ^ (L - 1) * 10 powi k \<le> real M * 10 powi k"
    using p by simp
  moreover have "(10::real) powi (k + int L - 1) = 10 ^ (L - 1) * 10 powi k"
  proof -
    have "k + int L - 1 = int (L - 1) + k"
      using L1 by simp
    then show ?thesis
      by (simp only: power_int_add [of "10::real", simplified] power_int_of_nat)
  qed
  ultimately have lo: "10 powi (k + int L - 1) \<le> x"
    by (simp add: x)
  have "real M < real (10 ^ L)"
    using b(2) by (simp only: of_nat_less_iff)
  then have "real M < (10::real) ^ L"
    by simp
  then have "real M * 10 powi k < 10 ^ L * 10 powi k"
    using p by simp
  moreover have "(10::real) powi (k + int L - 1 + 1) = 10 ^ L * 10 powi k"
  proof -
    have "k + int L - 1 + 1 = int L + k"
      by simp
    then show ?thesis
      by (simp only: power_int_add [of "10::real", simplified] power_int_of_nat)
  qed
  ultimately have hi: "x < 10 powi (k + int L - 1 + 1)"
    by (simp add: x)
  have e: "decimal_exponent x = k + int L - 1"
    using decimal_exponent_bounds [OF small] lo hi
    by (intro decimal_exponent_unique [of _ x]) simp_all
  have "scale10 x (5 - (k + int L - 1)) = real M * (10 powi k * 10 powi (int (6 - L) - k))"
    using L6 by (simp add: scale10_powi x algebra_simps of_nat_diff)
  also have "(10::real) powi k * 10 powi (int (6 - L) - k) = 10 powi (k + (int (6 - L) - k))"
    by (simp only: power_int_add [of "10::real", simplified])
  also have "k + (int (6 - L) - k) = int (6 - L)"
    by simp
  finally have s: "scale10 x (5 - (k + int L - 1)) = real (M * 10 ^ (6 - L))"
    by (simp add: power_int_of_nat)
  have eq1: "(10::nat) ^ (L - 1) * 10 ^ (6 - L) = 100000"
    using L1 L6 by (simp add: power_add [symmetric])
  have lo6: "100000 \<le> M * 10 ^ (6 - L)"
    using mult_le_mono1 [OF b(1), of "10 ^ (6 - L)"] unfolding eq1 .
  have eq2: "(10::nat) ^ L * 10 ^ (6 - L) = 1000000"
    using L6 by (simp add: power_add [symmetric])
  have hi6: "M * 10 ^ (6 - L) < 1000000"
    using mult_less_mono1 [OF b(2), of "10 ^ (6 - L)"] unfolding eq2 by simp
  from lo6 hi6 have r: "100000 \<le> real (M * 10 ^ (6 - L))" "real (M * 10 ^ (6 - L)) < 1000000"
    by linarith+
  have y: "let y = scale10 x (5 - decimal_exponent x)
           in y = real (nat \<lfloor>y\<rfloor>) \<and> 100000 \<le> y \<and> y < 1000000"
    unfolding e s Let_def using r by (simp del: of_nat_mult of_nat_power)
  from pos have "\<bar>x\<bar> = x" "\<bar>- x\<bar> = x"
    by simp_all
  with y show "six_significant (Finite (scale10 (real M) k))"
    and "six_significant (Finite (- scale10 (real M) k))"
    unfolding x_def [symmetric] six_significant_def by simp_all
qed


lemma six_significant_literal:
  assumes ip: "ip \<noteq> []" "list_all isdigit ip" and fp: "list_all isdigit fp"
    and six: "decimal (ip @ fp) < 1000000" and len: "length fp \<le> 399"
  shows "six_significant (toDouble_decimal
           ((if neg then [CHR ''-''] else []) @ ip @ (if fp = [] then [] else CHR ''.'' # fp)))"
proof -
  define N where "N = decimal (ip @ fp)"
  define v where "v = real (decimal ip) + real (decimal fp) / 10 ^ length fp"
  have e: "exponent_of [] = Some 0"
    by (simp add: exponent_of_def)
  from toDouble_decimal_literal [OF ip fp e, of neg]
  have read: "toDouble_decimal
      ((if neg then [CHR ''-''] else []) @ ip @ (if fp = [] then [] else CHR ''.'' # fp))
      = Finite (if neg then - v else v)"
    by (simp add: scale10_def v_def)
  have "v = real N / 10 ^ length fp"
    by (simp add: v_def N_def decimal_append add_divide_distrib)
  also have "\<dots> = scale10 (real N) (- int (length fp))"
    by (simp add: scale10_def)
  finally have v: "v = scale10 (real N) (- int (length fp))" .
  show ?thesis
  proof (cases "N = 0")
    case True
    with v have "v = 0"
      by (simp add: scale10_def)
    with read show ?thesis
      by (simp add: six_significant_def)
  next
    case False
    then have "0 < N"
      by simp
    moreover from six have "N < 1000000"
      by (simp add: N_def)
    moreover from len have "- 399 \<le> - int (length fp)"
      by simp
    ultimately have "six_significant (Finite v)" "six_significant (Finite (- v))"
      unfolding v by (rule six_significant_decimal)+
    with read show ?thesis
      by simp
  qed
qed









section \<open>MinMaxFilter\<close>

text \<open>
  What \<^verbatim>\<open>MinMaxFilter::Matches\<close> computes when the value is present, for every double: the
  item is excluded when a filled minimum is greater than the value or a filled maximum is
  less than it, and only then.
\<close>

lemma MinMaxFilter_Matches_value:
  assumes "is_value_present item" and "get_value item = Inr val"
  shows "MinMaxFilter_Matches is_value_present get_value item d =
           Inr (\<not> (min_filled d \<and> dgreater (min_val d) val)
                \<and> \<not> (max_filled d \<and> dless (max_val d) val))"
  using assms by (simp add: MinMaxFilter_Matches_def)

text \<open>The bounds are inclusive: a filled bound that equals the value does not exclude.\<close>

lemma MinMaxFilter_Matches_inclusive:
  assumes "is_value_present item" and "get_value item = Inr val"
    and "min_filled d \<longrightarrow> min_val d = val" and "max_filled d \<longrightarrow> max_val d = val"
  shows "MinMaxFilter_Matches is_value_present get_value item d = Inr True"
  using assms by (auto simp: MinMaxFilter_Matches_value dgreater_def dless_irrefl)

text \<open>
  Claim C2, amended. For every item whose underlying value is present and every FilterData
  in which no filled bound is compared with a NaN (neither the bound nor the value is one),
  \<^verbatim>\<open>MinMaxFilter::Matches\<close> returns true if and only if (not min_filled or min \<open>\<le>\<close> value)
  and (not max_filled or max \<open>\<ge>\<close> value). The bounds are inclusive.
\<close>

theorem MinMaxFilter_Matches_present:
  assumes "is_value_present item" and "get_value item = Inr val"
    and "min_filled d \<longrightarrow> min_val d \<noteq> NaN \<and> val \<noteq> NaN"
    and "max_filled d \<longrightarrow> max_val d \<noteq> NaN \<and> val \<noteq> NaN"
  shows "MinMaxFilter_Matches is_value_present get_value item d =
           Inr ((\<not> min_filled d \<or> dle (min_val d) val)
                \<and> (\<not> max_filled d \<or> dge (max_val d) val))"
  using assms
  by (auto simp: MinMaxFilter_Matches_value dgreater_def dge_def dle_iff_not_dless)

text \<open>
  The amended claim at the item of quality 20 with both bounds filled with 20: the item
  matches, each bound being met with equality.
\<close>

theorem MinMaxFilter_Matches_present_witness:
  "IsValuePresent (SimplePropertyFilter ''Quality'') example_item
   \<and> GetValue stod_decimal (SimplePropertyFilter ''Quality'') example_item = Inr (Finite 20)
   \<and> min_filled exact_bounds_data \<and> min_val exact_bounds_data = Finite 20
   \<and> max_filled exact_bounds_data \<and> max_val exact_bounds_data = Finite 20
   \<and> MinMaxFilter_Matches (IsValuePresent (SimplePropertyFilter ''Quality''))
        (GetValue stod_decimal (SimplePropertyFilter ''Quality'')) example_item exact_bounds_data
      = Inr True"
proof -
  have present: "IsValuePresent (SimplePropertyFilter ''Quality'') example_item"
    by (simp add: example_item_def)
  have val: "GetValue stod_decimal (SimplePropertyFilter ''Quality'') example_item
               = Inr (Finite 20)"
    by (simp add: example_item_def stod_decimal_20)
  have bounds: "min_filled exact_bounds_data" "min_val exact_bounds_data = Finite 20"
    "max_filled exact_bounds_data" "max_val exact_bounds_data = Finite 20"
    by (simp_all add: exact_bounds_data_def)
  from MinMaxFilter_Matches_present
      [of "IsValuePresent (SimplePropertyFilter ''Quality'')" example_item
        "GetValue stod_decimal (SimplePropertyFilter ''Quality'')" "Finite 20" exact_bounds_data]
    present val bounds
  show ?thesis by (simp add: dge_def)
qed

text \<open>
  Claim C2 as stated fails where a filled bound is a NaN, which is what the text \<^verbatim>\<open>nan\<close>
  converts to: \<^verbatim>\<open>min > value\<close> is false, so the item of quality 20 matches, whereas
  \<^verbatim>\<open>min <= value\<close> is false as well.
\<close>

theorem MinMaxFilter_Matches_NaN_counterexample:
  "IsValuePresent (SimplePropertyFilter ''Quality'') example_item
   \<and> GetValue stod_decimal (SimplePropertyFilter ''Quality'') example_item = Inr (Finite 20)
   \<and> MinMaxFilter_Matches (IsValuePresent (SimplePropertyFilter ''Quality''))
        (GetValue stod_decimal (SimplePropertyFilter ''Quality'')) example_item nan_min_data
      = Inr True
   \<and> \<not> ((\<not> min_filled nan_min_data \<or> dle (min_val nan_min_data) (Finite 20))
          \<and> (\<not> max_filled nan_min_data \<or> dge (max_val nan_min_data) (Finite 20)))"
  by (simp add: MinMaxFilter_Matches_def example_item_def stod_decimal_20 nan_min_data_def
      quality_data_def FilterData_new_def dgreater_def)

text \<open>
  Claim C3. For every item whose underlying value is absent and every FilterData,
  \<^verbatim>\<open>MinMaxFilter::Matches\<close> returns true if and only if neither min_filled nor max_filled is
  set: a filled bound excludes an item without the value.
\<close>

theorem MinMaxFilter_Matches_absent:
  assumes "\<not> is_value_present item"
  shows "MinMaxFilter_Matches is_value_present get_value item d =
           Inr (\<not> min_filled d \<and> \<not> max_filled d)"
  using assms by (auto simp: MinMaxFilter_Matches_def)

text \<open>
  The example item has no property Level: a filter on Level with a filled minimum excludes
  it.
\<close>

theorem MinMaxFilter_Matches_absent_witness:
  "\<not> IsValuePresent (SimplePropertyFilter ''Level'') example_item
   \<and> MinMaxFilter_Matches (IsValuePresent (SimplePropertyFilter ''Level''))
        (GetValue stod_decimal (SimplePropertyFilter ''Level'')) example_item min_one_data
      = Inr False"
proof -
  have absent: "\<not> IsValuePresent (SimplePropertyFilter ''Level'') example_item"
    by (simp add: example_item_def)
  from MinMaxFilter_Matches_absent
      [of "IsValuePresent (SimplePropertyFilter ''Level'')" example_item
        "GetValue stod_decimal (SimplePropertyFilter ''Level'')" min_one_data]
    absent
  show ?thesis by (simp add: min_one_data_def)
qed

text \<open>
  Claim C7. For \<^verbatim>\<open>SimplePropertyFilter\<close> the underlying value is absent exactly when the key
  is missing from the item's properties. When the key is present the value is what
  \<^verbatim>\<open>std::stod\<close> makes of the mapped string, and when \<^verbatim>\<open>std::stod\<close> throws, the exception
  leaves \<^verbatim>\<open>Matches\<close>: the item is not treated as having no value.
\<close>

theorem SimplePropertyFilter_value:
  "(\<not> IsValuePresent (SimplePropertyFilter p) item \<longleftrightarrow> properties item p = None)
   \<and> (\<forall>s. properties item p = Some s \<longrightarrow>
          GetValue stod (SimplePropertyFilter p) item = stod s
          \<and> (\<forall>e. stod s = Inl e \<longrightarrow>
                MinMaxFilter_Matches (IsValuePresent (SimplePropertyFilter p))
                  (GetValue stod (SimplePropertyFilter p)) item d = Inl e))"
  by (auto simp: MinMaxFilter_Matches_def)

text \<open>The item whose quality is \<^verbatim>\<open>abc\<close>: the value is present, and the evaluation fails.\<close>

theorem SimplePropertyFilter_value_witness:
  "properties unparsable_item ''Quality'' = Some ''abc''
   \<and> stod_decimal ''abc'' = Inl invalid_argument
   \<and> IsValuePresent (SimplePropertyFilter ''Quality'') unparsable_item
   \<and> GetValue stod_decimal (SimplePropertyFilter ''Quality'') unparsable_item
      = Inl invalid_argument
   \<and> MinMaxFilter_Matches (IsValuePresent (SimplePropertyFilter ''Quality''))
        (GetValue stod_decimal (SimplePropertyFilter ''Quality'')) unparsable_item quality_data
      = Inl invalid_argument"
proof -
  have key: "properties unparsable_item ''Quality'' = Some ''abc''"
    by (simp add: unparsable_item_def)
  from SimplePropertyFilter_value [of "''Quality''" unparsable_item stod_decimal quality_data]
    key stod_decimal_abc
  show ?thesis by simp
qed

text \<open>
  Claim C8. For \<^verbatim>\<open>RequiredStatFilter\<close> the underlying value is always present, and
  \<^verbatim>\<open>GetValue\<close> returns the entry of the item's requirements under the filter's property
  name when the key exists, and 0 when it is missing.
\<close>

theorem RequiredStatFilter_value:
  "IsValuePresent (RequiredStatFilter p) item
   \<and> GetValue stod (RequiredStatFilter p) item =
       Inr (case requirements item p of Some n \<Rightarrow> double_of_int n | None \<Rightarrow> Finite 0)"
  by (simp add: always_present_def split: option.split)

section \<open>NameSearchFilter\<close>

text \<open>
  Claim C6. \<^verbatim>\<open>NameSearchFilter::Matches\<close> returns true if and only if the item's display
  name, every byte of it put through \<^verbatim>\<open>tolower\<close>, contains the query, put through \<^verbatim>\<open>tolower\<close>
  in the same way, as a substring; an empty query matches every item.
\<close>

theorem NameSearchFilter_Matches_iff:
  "NameSearchFilter_Matches item d =
     (\<exists>pre post. map tolower (PrettyName item) = pre @ map tolower (text_query d) @ post)
   \<and> NameSearchFilter_Matches item (d\<lparr>text_query := []\<rparr>)"
proof -
  have contains: "(find_str name str \<noteq> None) = (\<exists>pre post. name = pre @ str @ post)"
    for name str
    unfolding find_str_None_iff sublist_def by simp
  show ?thesis
    unfolding NameSearchFilter_Matches_def Let_def contains
    by (simp add: exI [of _ "[]"])
qed

text \<open>The two queries of the specification on the name of the example item.\<close>

lemma NameSearchFilter_Matches_examples:
  "NameSearchFilter_Matches example_item (quality_data\<lparr>text_query := ''wrap''\<rparr>)"
  "\<not> NameSearchFilter_Matches example_item (quality_data\<lparr>text_query := ''xyz''\<rparr>)"
  by code_simp+

section \<open>SocketsColorsFilter\<close>

text \<open>
  \<^verbatim>\<open>SocketsColorsFilter::Matches\<close> in the arithmetic of the program: the differences and
  the sum are those of \<^verbatim>\<open>int\<close>.
\<close>

lemma SocketsColorsFilter_Matches_int32:
  "SocketsColorsFilter_Matches item d =
     (if \<not> r_filled d \<and> \<not> g_filled d \<and> \<not> b_filled d then True
      else
        let need_r = (if r_filled d then r_val d else 0);
            need_g = (if g_filled d then g_val d else 0);
            need_b = (if b_filled d then b_val d else 0)
        in sint (std_max 0 (need_r - sockets_r item) + std_max 0 (need_g - sockets_g item)
                 + std_max 0 (need_b - sockets_b item))
           \<le> sint (sockets_w item))"
  by (simp add: SocketsColorsFilter_Matches_def Check_def Let_def)

text \<open>
  Read over the integers, the sum of \<^verbatim>\<open>Check\<close> is the sum of the three deficits as long as
  no difference and no sum leaves the range of \<^verbatim>\<open>int\<close>.
\<close>

lemma sint_sub_exact:
  fixes a b :: int32
  assumes "in_int_range (sint a - sint b)"
  shows "sint (a - b) = sint a - sint b"
  using assms by (simp add: in_int_range_def sint_word_ariths signed_take_bit_int_eq_self)

lemma sint_add_exact:
  fixes a b :: int32
  assumes "in_int_range (sint a + sint b)"
  shows "sint (a + b) = sint a + sint b"
  using assms by (simp add: in_int_range_def sint_word_ariths signed_take_bit_int_eq_self)

lemma sint_std_max: "sint (std_max 0 x) = max 0 (sint x)"
  by (simp add: std_max_def max_def)

lemma deficit_nonneg: "0 \<le> deficit need got"
  by (simp add: deficit_def)

lemma Check_no_overflow:
  assumes red: "in_int_range (sint nr - sint gr)"
    and green: "in_int_range (sint ng - sint gg)"
    and blue: "in_int_range (sint nb - sint gb)"
    and total: "in_int_range (deficit (sint nr) (sint gr) + deficit (sint ng) (sint gg)
                                + deficit (sint nb) (sint gb))"
  shows "Check nr ng nb gr gg gb gw \<longleftrightarrow>
           deficit (sint nr) (sint gr) + deficit (sint ng) (sint gg) + deficit (sint nb) (sint gb)
             \<le> sint gw"
proof -
  let ?a = "deficit (sint nr) (sint gr)" and ?b = "deficit (sint ng) (sint gg)"
    and ?c = "deficit (sint nb) (sint gb)"
  have a: "sint (std_max 0 (nr - gr)) = ?a"
    using red by (simp add: sint_std_max sint_sub_exact deficit_def)
  have b: "sint (std_max 0 (ng - gg)) = ?b"
    using green by (simp add: sint_std_max sint_sub_exact deficit_def)
  have c: "sint (std_max 0 (nb - gb)) = ?c"
    using blue by (simp add: sint_std_max sint_sub_exact deficit_def)
  have nonneg: "0 \<le> ?a" "0 \<le> ?b" "0 \<le> ?c"
    by (simp_all add: deficit_nonneg)
  have "in_int_range (?a + ?b)"
    using total nonneg unfolding in_int_range_def by linarith
  then have ab: "sint (std_max 0 (nr - gr) + std_max 0 (ng - gg)) = ?a + ?b"
    using sint_add_exact [of "std_max 0 (nr - gr)" "std_max 0 (ng - gg)"] by (simp only: a b)
  have abc:
    "sint (std_max 0 (nr - gr) + std_max 0 (ng - gg) + std_max 0 (nb - gb)) = ?a + ?b + ?c"
    using sint_add_exact [of "std_max 0 (nr - gr) + std_max 0 (ng - gg)" "std_max 0 (nb - gb)"]
      total by (simp only: ab c)
  show ?thesis
    by (simp only: Check_def Let_def abc)
qed

text \<open>
  Nothing overflows when the needs and the counts are between 0 and \<open>2 ^ 29\<close>, as the
  counts of an item and the needs of a sensible query are.
\<close>

lemma Check_small:
  assumes "0 \<le> sint nr" "sint nr \<le> 2 ^ 29" "0 \<le> sint ng" "sint ng \<le> 2 ^ 29"
    and "0 \<le> sint nb" "sint nb \<le> 2 ^ 29" "0 \<le> sint gr" "sint gr \<le> 2 ^ 29"
    and "0 \<le> sint gg" "sint gg \<le> 2 ^ 29" "0 \<le> sint gb" "sint gb \<le> 2 ^ 29"
  shows "Check nr ng nb gr gg gb gw \<longleftrightarrow>
           deficit (sint nr) (sint gr) + deficit (sint ng) (sint gg) + deficit (sint nb) (sint gb)
             \<le> sint gw"
proof (rule Check_no_overflow)
  show "in_int_range (sint nr - sint gr)" "in_int_range (sint ng - sint gg)"
    "in_int_range (sint nb - sint gb)"
    using assms by (simp_all add: in_int_range_def)
  have "deficit (sint nr) (sint gr) \<le> 2 ^ 29" "deficit (sint ng) (sint gg) \<le> 2 ^ 29"
    "deficit (sint nb) (sint gb) \<le> 2 ^ 29"
    using assms by (simp_all add: deficit_def)
  then show "in_int_range (deficit (sint nr) (sint gr) + deficit (sint ng) (sint gg)
                            + deficit (sint nb) (sint gb))"
    using deficit_nonneg [of "sint nr" "sint gr"] deficit_nonneg [of "sint ng" "sint gg"]
      deficit_nonneg [of "sint nb" "sint gb"]
    by (simp add: in_int_range_def)
qed

text \<open>
  Claim C4, amended. \<^verbatim>\<open>SocketsColorsFilter::Matches\<close> returns true when none of r_filled,
  g_filled and b_filled is set. Otherwise, provided the three differences need - got and
  the sum of the three deficits are in the range of \<^verbatim>\<open>int\<close>, it returns true if and only if
  max(0, need_r - got_r) + max(0, need_g - got_g) + max(0, need_b - got_b) \<open>\<le>\<close> got_w, where
  the counts are the item's totals sockets_r, sockets_g, sockets_b and sockets_w and a need
  that is not filled is 0.
\<close>

theorem SocketsColorsFilter_Matches_iff:
  assumes "in_int_range (need_of (r_filled d) (r_val d) - sint (sockets_r item))"
    and "in_int_range (need_of (g_filled d) (g_val d) - sint (sockets_g item))"
    and "in_int_range (need_of (b_filled d) (b_val d) - sint (sockets_b item))"
    and "in_int_range
           (deficit (need_of (r_filled d) (r_val d)) (sint (sockets_r item))
            + deficit (need_of (g_filled d) (g_val d)) (sint (sockets_g item))
            + deficit (need_of (b_filled d) (b_val d)) (sint (sockets_b item)))"
  shows "SocketsColorsFilter_Matches item d =
     (if \<not> r_filled d \<and> \<not> g_filled d \<and> \<not> b_filled d then True
      else deficit (need_of (r_filled d) (r_val d)) (sint (sockets_r item))
           + deficit (need_of (g_filled d) (g_val d)) (sint (sockets_g item))
           + deficit (need_of (b_filled d) (b_val d)) (sint (sockets_b item))
           \<le> sint (sockets_w item))"
proof (cases "\<not> r_filled d \<and> \<not> g_filled d \<and> \<not> b_filled d")
  case True
  then show ?thesis
    by (simp add: SocketsColorsFilter_Matches_def)
next
  case False
  have need: "need_of filled n = sint (if filled then n else 0)" for filled n
    by (simp add: need_of_def)
  have "Check (if r_filled d then r_val d else 0) (if g_filled d then g_val d else 0)
          (if b_filled d then b_val d else 0)
          (sockets_r item) (sockets_g item) (sockets_b item) (sockets_w item)
        \<longleftrightarrow>
          deficit (need_of (r_filled d) (r_val d)) (sint (sockets_r item))
          + deficit (need_of (g_filled d) (g_val d)) (sint (sockets_g item))
          + deficit (need_of (b_filled d) (b_val d)) (sint (sockets_b item))
          \<le> sint (sockets_w item)"
    unfolding need using assms [unfolded need] by (rule Check_no_overflow)
  with False show ?thesis
    by (auto simp: SocketsColorsFilter_Matches_def Let_def)
qed

text \<open>
  The first example of the specification: two red sockets are needed, the item has one red
  and one white socket, and it matches.
\<close>

theorem SocketsColorsFilter_Matches_iff_witness:
  "in_int_range (need_of (r_filled sockets_two_red_data) (r_val sockets_two_red_data)
                 - sint (sockets_r example_item))
   \<and> r_filled sockets_two_red_data
   \<and> deficit (need_of (r_filled sockets_two_red_data) (r_val sockets_two_red_data))
         (sint (sockets_r example_item)) = 1
   \<and> sint (sockets_w example_item) = 1
   \<and> SocketsColorsFilter_Matches example_item sockets_two_red_data = True"
proof -
  have vals: "r_filled sockets_two_red_data" "\<not> g_filled sockets_two_red_data"
    "\<not> b_filled sockets_two_red_data" "r_val sockets_two_red_data = 2"
    "sockets_r example_item = 1" "sockets_g example_item = 0" "sockets_b example_item = 0"
    "sockets_w example_item = 1"
    by (simp_all add: sockets_two_red_data_def FilterData_new_def example_item_def)
  from SocketsColorsFilter_Matches_iff [of sockets_two_red_data example_item]
  show ?thesis
    by (simp add: vals need_of_def deficit_def in_int_range_def)
qed

text \<open>
  Claim C4 as stated fails where the sum of the deficits does not fit in an \<^verbatim>\<open>int\<close>: with
  2147483647 red and as many green sockets needed of an item that has none, the deficits
  add up to 4294967294, which is more than the white sockets of any item, and the sum of
  the program is -2: the item, which has no socket, matches.
\<close>

theorem SocketsColorsFilter_Matches_overflow_counterexample:
  "r_filled int_max_data \<and> g_filled int_max_data
   \<and> deficit (need_of (r_filled int_max_data) (r_val int_max_data))
         (sint (sockets_r no_sockets_item))
       + deficit (need_of (g_filled int_max_data) (g_val int_max_data))
           (sint (sockets_g no_sockets_item))
       + deficit (need_of (b_filled int_max_data) (b_val int_max_data))
           (sint (sockets_b no_sockets_item))
       = 4294967294
   \<and> sint (sockets_w no_sockets_item) = 0
   \<and> \<not> (deficit (need_of (r_filled int_max_data) (r_val int_max_data))
            (sint (sockets_r no_sockets_item))
          + deficit (need_of (g_filled int_max_data) (g_val int_max_data))
              (sint (sockets_g no_sockets_item))
          + deficit (need_of (b_filled int_max_data) (b_val int_max_data))
              (sint (sockets_b no_sockets_item))
          \<le> sint (sockets_w no_sockets_item))
   \<and> SocketsColorsFilter_Matches no_sockets_item int_max_data = True"
  by (simp add: int_max_data_def FilterData_new_def no_sockets_item_def example_item_def
      need_of_def deficit_def SocketsColorsFilter_Matches_def Check_def std_max_def)

text \<open>The two examples of the specification, and a sum that wraps around.\<close>

lemma Check_examples:
  "Check 2 0 0 1 0 0 1"
  "\<not> Check 2 0 0 0 0 0 1"
  "Check 2147483647 2147483647 0 0 0 0 0"
  by (simp_all add: Check_def std_max_def)

section \<open>LinksColorsFilter\<close>

text \<open>
  What the loop of \<^verbatim>\<open>LinksColorsFilter::Matches\<close> computes on sockets none of which is white.
  The white count then stays 0, each \<^verbatim>\<open>Check\<close> sees the counts of one group, and the
  loop agrees with the specification's reading: some group satisfies \<^verbatim>\<open>Check\<close>. As
  \<^verbatim>\<open>current\<close> starts at 0, sockets that start in another group are preceded by a \<^verbatim>\<open>Check\<close>
  on counts that are all 0.
\<close>

lemma current_count_socket: "current (count_socket s st) = current st"
  by (simp add: count_socket_def split: list.split)

lemma count_socket_current_update:
  "count_socket s (st\<lparr>current := c\<rparr>) = (count_socket s st)\<lparr>current := c\<rparr>"
  by (simp add: count_socket_def split: list.split)

lemma got_w_count_socket: "\<not> is_white s \<Longrightarrow> got_w (count_socket s st) = got_w st"
  by (auto simp: count_socket_def is_white_def split: list.splits)

lemma fold_count_socket_current:
  "fold count_socket g (st\<lparr>current := c\<rparr>) = (fold count_socket g st)\<lparr>current := c\<rparr>"
  by (induction g arbitrary: st) (simp_all add: count_socket_current_update)

lemma got_w_fold_count_socket:
  "\<forall>s\<in>set g. \<not> is_white s \<Longrightarrow> got_w (fold count_socket g st) = got_w st"
  by (induction g arbitrary: st) (simp_all add: got_w_count_socket)

lemma link_groups_head: "ss \<noteq> [] \<Longrightarrow> \<exists>g gs. link_groups ss = (hd ss # g) # gs"
  by (cases ss) (auto split: list.split)

lemma link_groups_uniform:
  assumes "pend \<noteq> []" and "\<forall>s\<in>set pend. group_id s = c"
    and "ss = [] \<or> group_id (hd ss) \<noteq> c"
  shows "link_groups (pend @ ss) = pend # link_groups ss"
  using assms
proof (induction pend)
  case Nil
  then show ?case by simp
next
  case (Cons p pend)
  note IH = Cons.IH and prems = Cons.prems
  have p: "group_id p = c"
    using prems(2) by simp
  have step: "link_groups ((p # pend) @ ss) =
      (case link_groups (pend @ ss) of
         (t # g) # gs \<Rightarrow>
           if group_id t = group_id p then (p # t # g) # gs else [p] # (t # g) # gs
       | _ \<Rightarrow> [[p]])"
    by simp
  show ?case
  proof (cases "pend = []")
    case True
    show ?thesis
    proof (cases "ss = []")
      case True
      with \<open>pend = []\<close> show ?thesis by simp
    next
      case False
      then obtain g gs where "link_groups ss = (hd ss # g) # gs"
        using link_groups_head [of ss] by blast
      moreover have "group_id (hd ss) \<noteq> group_id p"
        using False prems(3) p by simp
      ultimately show ?thesis
        unfolding step using \<open>pend = []\<close> by (simp del: link_groups.simps)
    qed
  next
    case False
    then obtain q rest where pend: "pend = q # rest"
      by (cases pend) auto
    have "link_groups (pend @ ss) = pend # link_groups ss"
      using False IH prems by (simp del: link_groups.simps)
    moreover have "group_id q = group_id p"
      using pend prems(2) by simp
    ultimately show ?thesis
      unfolding step using pend by (simp del: link_groups.simps)
  qed
qed

lemma loop_body_same_group:
  "current st = group_id s \<Longrightarrow> loop_body nr ng nb st s = Some (count_socket s st)"
  by (cases st) (simp add: loop_body_def)

lemma loop_body_return:
  "current st \<noteq> group_id s \<Longrightarrow> Check nr ng nb (got_r st) (got_g st) (got_b st) (got_w st)
   \<Longrightarrow> loop_body nr ng nb st s = None"
  by (simp add: loop_body_def)

lemma loop_body_new_group:
  "current st \<noteq> group_id s \<Longrightarrow> \<not> Check nr ng nb (got_r st) (got_g st) (got_b st) (got_w st)
   \<Longrightarrow> got_w st = 0
   \<Longrightarrow> loop_body nr ng nb st s = Some (count_socket s (scan_init\<lparr>current := group_id s\<rparr>))"
  by (cases st) (simp add: loop_body_def scan_init_def)

lemma links_loop_pending:
  assumes "pend \<noteq> []" and "\<forall>s\<in>set pend. group_id s = c"
    and "\<forall>s\<in>set (pend @ ss). \<not> is_white s"
  shows "links_loop nr ng nb ((group_counts pend)\<lparr>current := c\<rparr>) ss
           = some_group_satisfies nr ng nb (pend @ ss)"
  using assms
proof (induction ss arbitrary: pend c)
  case Nil
  then show ?case
    using link_groups_uniform [of pend c "[]"]
    by (simp add: some_group_satisfies_def group_satisfies_def Let_def)
next
  case (Cons s ss)
  let ?st = "(group_counts pend)\<lparr>current := c\<rparr>"
  have w0: "got_w (group_counts pend) = 0"
    using Cons.prems(3) by (simp add: group_counts_def got_w_fold_count_socket scan_init_def)
  show ?case
  proof (cases "group_id s = c")
    case True
    then have body: "loop_body nr ng nb ?st s = Some ((group_counts (pend @ [s]))\<lparr>current := c\<rparr>)"
      by (simp add: loop_body_same_group group_counts_def count_socket_current_update)
    have "links_loop nr ng nb ((group_counts (pend @ [s]))\<lparr>current := c\<rparr>) ss
            = some_group_satisfies nr ng nb ((pend @ [s]) @ ss)"
      using Cons.prems True by (intro Cons.IH) auto
    with body show ?thesis by simp
  next
    case False
    have groups: "link_groups (pend @ s # ss) = pend # link_groups (s # ss)"
      using link_groups_uniform [of pend c "s # ss"] Cons.prems False by simp
    show ?thesis
    proof (cases "Check nr ng nb (got_r ?st) (got_g ?st) (got_b ?st) (got_w ?st)")
      case True
      with False have "loop_body nr ng nb ?st s = None"
        by (simp add: loop_body_return)
      moreover from True have "group_satisfies nr ng nb pend"
        by (simp add: group_satisfies_def Let_def)
      ultimately show ?thesis
        by (simp add: some_group_satisfies_def groups)
    next
      case no: False
      have body: "loop_body nr ng nb ?st s = Some ((group_counts [s])\<lparr>current := group_id s\<rparr>)"
        using False no w0
        by (simp add: loop_body_new_group group_counts_def count_socket_current_update)
      have "links_loop nr ng nb ((group_counts [s])\<lparr>current := group_id s\<rparr>) ss
              = some_group_satisfies nr ng nb ([s] @ ss)"
        using Cons.prems by (intro Cons.IH) auto
      moreover from no have "\<not> group_satisfies nr ng nb pend"
        by (simp add: group_satisfies_def Let_def)
      ultimately show ?thesis
        using body by (simp add: some_group_satisfies_def groups)
    qed
  qed
qed


lemma links_loop_no_white:
  assumes "\<forall>s\<in>set ss. \<not> is_white s"
  shows "links_loop nr ng nb scan_init ss =
     (case ss of
        [] \<Rightarrow> Check nr ng nb 0 0 0 0
      | s # rest \<Rightarrow>
          (group_id s \<noteq> 0 \<and> Check nr ng nb 0 0 0 0) \<or> some_group_satisfies nr ng nb ss)"
proof (cases ss)
  case Nil
  then show ?thesis by (simp add: scan_init_def)
next
  case (Cons s rest)
  have pending: "links_loop nr ng nb ((group_counts [s])\<lparr>current := group_id s\<rparr>) rest
                   = some_group_satisfies nr ng nb ss"
    using links_loop_pending [of "[s]" "group_id s" rest nr ng nb] assms Cons by simp
  have counts: "(group_counts [s])\<lparr>current := group_id s\<rparr>
                  = count_socket s (scan_init\<lparr>current := group_id s\<rparr>)"
    by (simp add: group_counts_def count_socket_current_update)
  show ?thesis
  proof (cases "group_id s = 0")
    case True
    then have same: "scan_init\<lparr>current := group_id s\<rparr> = scan_init"
      by (simp add: scan_init_def)
    have "loop_body nr ng nb scan_init s = Some (count_socket s scan_init)"
      using True by (simp add: loop_body_same_group scan_init_def)
    then have "loop_body nr ng nb scan_init s = Some ((group_counts [s])\<lparr>current := group_id s\<rparr>)"
      by (simp only: counts same)
    with pending True Cons show ?thesis by simp
  next
    case False
    show ?thesis
    proof (cases "Check nr ng nb 0 0 0 0")
      case True
      with False have "loop_body nr ng nb scan_init s = None"
        by (simp add: loop_body_return scan_init_def)
      with True False Cons show ?thesis by simp
    next
      case no: False
      with False have "loop_body nr ng nb scan_init s = Some ((group_counts [s])\<lparr>current := group_id s\<rparr>)"
        by (simp add: counts loop_body_new_group scan_init_def)
      with pending no Cons show ?thesis by simp
    qed
  qed
qed

lemma LinksColorsFilter_Matches_no_white:
  assumes "r_filled d \<or> g_filled d \<or> b_filled d"
    and "\<forall>s\<in>set (json_sockets item). \<not> is_white s"
    and "json_sockets item = s # rest" and "group_id s = 0"
  shows "LinksColorsFilter_Matches item d =
           some_group_satisfies (if r_filled d then r_val d else 0)
             (if g_filled d then g_val d else 0) (if b_filled d then b_val d else 0)
             (json_sockets item)"
  using assms(1) links_loop_no_white [OF assms(2)] assms(3,4)
  by (auto simp: LinksColorsFilter_Matches_def Let_def)


text \<open>
  The check after the loop is never skipped: while the group does not change, the result
  is \<^verbatim>\<open>Check\<close> on the counts the loop has reached at the end.
\<close>

lemma links_loop_same_group:
  "\<forall>s\<in>set ss. group_id s = current st \<Longrightarrow>
   links_loop nr ng nb st ss =
     (let c = fold count_socket ss st in Check nr ng nb (got_r c) (got_g c) (got_b c) (got_w c))"
  by (induction ss arbitrary: st)
    (simp_all add: loop_body_same_group current_count_socket Let_def)


text \<open>
  Claim C1 (the transition on a change of group) at its failing input: two red sockets are
  required, the loop has counted one white socket in group 0, and the next socket is a red
  one of group 1. The source resets the red, green and blue counts and keeps the white
  count, where the specification resets all four. On the item with exactly these two
  sockets the filter matches although neither group has two sockets that can be red.
\<close>

theorem LinksColorsFilter_white_count_kept:
  "loop_body 2 0 0 \<lparr>current = 0, got_r = 0, got_g = 0, got_b = 0, got_w = 1\<rparr>
       \<lparr>group_id = 1, attr = ''S''\<rparr>
     = Some \<lparr>current = 1, got_r = 1, got_g = 0, got_b = 0, got_w = 1\<rparr>
   \<and> spec_loop_body 2 0 0 \<lparr>current = 0, got_r = 0, got_g = 0, got_b = 0, got_w = 1\<rparr>
       \<lparr>group_id = 1, attr = ''S''\<rparr>
     = Some \<lparr>current = 1, got_r = 1, got_g = 0, got_b = 0, got_w = 0\<rparr>
   \<and> LinksColorsFilter_Matches example_item two_red_data = True
   \<and> some_group_satisfies 2 0 0 (json_sockets example_item) = False"
  by (simp add: loop_body_def spec_loop_body_def Check_def std_max_def count_socket_def
      LinksColorsFilter_Matches_def example_item_def two_red_data_def FilterData_new_def
      scan_init_def some_group_satisfies_def group_satisfies_def group_counts_def)

text \<open>
  Claim C5 (the check after the loop) at its failing input: three green sockets are
  required of an item with two white sockets in group 0 and one green socket in group 1.
  Neither group satisfies \<^verbatim>\<open>Check\<close> on its own counts. The check after the loop does take
  place, but on the green count of the last group together with the white count of the
  whole item, and the filter matches.
\<close>

theorem LinksColorsFilter_final_check_counts_earlier_white:
  "link_groups (json_sockets links_item) =
     [[\<lparr>group_id = 0, attr = ''G''\<rparr>, \<lparr>group_id = 0, attr = ''G''\<rparr>],
      [\<lparr>group_id = 1, attr = ''D''\<rparr>]]
   \<and> group_satisfies 0 3 0 [\<lparr>group_id = 0, attr = ''G''\<rparr>, \<lparr>group_id = 0, attr = ''G''\<rparr>]
       = False
   \<and> group_satisfies 0 3 0 [\<lparr>group_id = 1, attr = ''D''\<rparr>] = False
   \<and> some_group_satisfies 0 3 0 (json_sockets links_item) = False
   \<and> LinksColorsFilter_Matches links_item three_green_data = True"
  by (simp add: links_item_def example_item_def three_green_data_def FilterData_new_def
      LinksColorsFilter_Matches_def loop_body_def Check_def std_max_def count_socket_def
      scan_init_def some_group_satisfies_def group_satisfies_def group_counts_def)

section \<open>A new filter\<close>

text \<open>
  Only a \<^verbatim>\<open>SimplePropertyFilter\<close> can let an exception through: every other filter returns
  a truth value on every item and every data.
\<close>

lemma Matches_returns:
  assumes "\<forall>p. f \<noteq> MinMaxFilter (SimplePropertyFilter p)"
  shows "\<exists>b. Matches stod f item d = Inr b"
proof (cases f)
  case (MinMaxFilter v)
  with assms have "\<forall>p. v \<noteq> SimplePropertyFilter p"
    by simp
  then have "IsValuePresent v item" and "\<exists>val. GetValue stod v item = Inr val"
    by (cases v; simp add: always_present_def split: option.split)+
  then obtain val where "IsValuePresent v item" and "GetValue stod v item = Inr val"
    by blast
  then show ?thesis
    using MinMaxFilter by (simp add: MinMaxFilter_Matches_value)
qed simp_all

text \<open>
  Claim C10, amended. For every filter and every item, \<^verbatim>\<open>Matches\<close> on the data the
  constructor has just built returns true, unless the filter is a \<^verbatim>\<open>SimplePropertyFilter\<close>
  whose property the item has with a string on which \<^verbatim>\<open>std::stod\<close> throws.
\<close>

theorem new_FilterData_Matches:
  assumes "\<forall>p s. f = MinMaxFilter (SimplePropertyFilter p) \<longrightarrow> properties item p = Some s
             \<longrightarrow> (\<exists>v. stod s = Inr v)"
  shows "FilterData_Matches stod item (FilterData_new f mn mx r0 g0 b0) = Inr True"
proof (cases f)
  case NameSearchFilter
  then show ?thesis
    by (simp add: FilterData_Matches_def FilterData_new_def NameSearchFilter_Matches_def
        find_str_empty)
next
  case (MinMaxFilter v)
  show ?thesis
  proof (cases v)
    case (SimplePropertyFilter p)
    with assms MinMaxFilter show ?thesis
      by (auto simp: FilterData_Matches_def FilterData_new_def MinMaxFilter_Matches_def)
  qed (simp_all add: MinMaxFilter FilterData_Matches_def FilterData_new_def
        MinMaxFilter_Matches_def always_present_def split: option.split)
next
  case SocketsColorsFilter
  then show ?thesis
    by (simp add: FilterData_Matches_def FilterData_new_def SocketsColorsFilter_Matches_def)
next
  case LinksColorsFilter
  then show ?thesis
    by (simp add: FilterData_Matches_def FilterData_new_def LinksColorsFilter_Matches_def)
qed

text \<open>A new filter on Quality matches the item of quality 20.\<close>

theorem new_FilterData_Matches_witness:
  "properties example_item ''Quality'' = Some ''20''
   \<and> stod_decimal ''20'' = Inr (Finite 20)
   \<and> FilterData_Matches stod_decimal example_item quality_data = Inr True"
proof -
  have key: "properties example_item ''Quality'' = Some ''20''"
    by (simp add: example_item_def)
  from new_FilterData_Matches
      [of "MinMaxFilter (SimplePropertyFilter ''Quality'')" example_item stod_decimal
        "Finite 0" "Finite 0" 0 0 0]
    key stod_decimal_20
  show ?thesis by (simp add: quality_data_def)
qed

text \<open>
  Claim C10 as stated fails on the item whose quality is \<^verbatim>\<open>abc\<close>: a new filter on Quality
  does not return true, the exception of \<^verbatim>\<open>std::stod\<close> leaves \<^verbatim>\<open>Matches\<close>.
\<close>

theorem new_FilterData_parse_error_counterexample:
  "quality_data =
     FilterData_new (MinMaxFilter (SimplePropertyFilter ''Quality'')) (Finite 0) (Finite 0) 0 0 0
   \<and> FilterData_Matches stod_decimal unparsable_item quality_data = Inl invalid_argument
   \<and> FilterData_Matches stod_decimal unparsable_item quality_data \<noteq> Inr True"
  by (simp add: quality_data_def FilterData_Matches_def FilterData_new_def
      MinMaxFilter_Matches_def unparsable_item_def stod_decimal_abc)

section \<open>Forms\<close>




text \<open>
  The flags come back for every form, also when the number has more than six digits:
  \<^verbatim>\<open>QString::number\<close> never writes an empty text.
\<close>

lemma MinMaxFilter_roundtrip_flags:
  "min_filled (MinMaxFilter_FromForm toDouble_decimal
      (MinMaxFilter_ToForm number_double_decimal
         (MinMaxFilter_FromForm toDouble_decimal mf d) mf)
      (MinMaxFilter_FromForm toDouble_decimal mf d))
   = min_filled (MinMaxFilter_FromForm toDouble_decimal mf d)"
  "max_filled (MinMaxFilter_FromForm toDouble_decimal
      (MinMaxFilter_ToForm number_double_decimal
         (MinMaxFilter_FromForm toDouble_decimal mf d) mf)
      (MinMaxFilter_FromForm toDouble_decimal mf d))
   = max_filled (MinMaxFilter_FromForm toDouble_decimal mf d)"
  by (simp_all add: MinMaxFilter_ToForm_def MinMaxFilter_FromForm_def
      number_double_decimal_not_Nil)

text \<open>
  Unlike \<^verbatim>\<open>MinMaxFilter::ToForm\<close>, \<^verbatim>\<open>SocketsColorsFilter::ToForm\<close> does not clear a field
  that is not filled: the round trip leaves such a field empty because the form was not
  modified in between, and a text the form shows for other data stays.
\<close>

lemma MinMaxFilter_ToForm_clears:
  "\<not> min_filled d \<Longrightarrow> textbox_min (MinMaxFilter_ToForm number_d d mf) = []"
  "\<not> max_filled d \<Longrightarrow> textbox_max (MinMaxFilter_ToForm number_d d mf) = []"
  by (simp_all add: MinMaxFilter_ToForm_def)

lemma SocketsColorsFilter_ToForm_keeps:
  "\<not> r_filled d \<Longrightarrow> textbox_r (SocketsColorsFilter_ToForm number_i d sf) = textbox_r sf"
  "\<not> g_filled d \<Longrightarrow> textbox_g (SocketsColorsFilter_ToForm number_i d sf) = textbox_g sf"
  "\<not> b_filled d \<Longrightarrow> textbox_b (SocketsColorsFilter_ToForm number_i d sf) = textbox_b sf"
  by (simp_all add: SocketsColorsFilter_ToForm_def)

end
